theory Spec2Isabelle
  imports Main
begin

section \<open>JavaScript values used by the component\<close>

text \<open>
  Strings are lists of 8-bit characters. \<open>String.prototype.trim\<close> removes the leading and
  the trailing run of white space and line terminators; in the 8-bit range these are
  TAB, LF, VT, FF, CR, SPACE and NBSP.
\<close>

definition isWhiteSpace :: "char \<Rightarrow> bool" where
  "isWhiteSpace ch \<longleftrightarrow>
     ch \<in> set [CHR 0x09, CHR 0x0A, CHR 0x0B, CHR 0x0C, CHR 0x0D, CHR 0x20, CHR 0xA0]"

definition trim :: "string \<Rightarrow> string" where
  "trim s = rev (dropWhile isWhiteSpace (rev (dropWhile isWhiteSpace s)))"

text \<open>Truthiness of a string, and of a \<open>string | undefined\<close> member (\<open>None\<close> is undefined).\<close>

definition truthy :: "string \<Rightarrow> bool" where
  "truthy s \<longleftrightarrow> s \<noteq> []"

fun truthy_opt :: "string option \<Rightarrow> bool" where
  "truthy_opt None = False"
| "truthy_opt (Some s) = truthy s"

section \<open>Data model\<close>

text \<open>
  \<open>InstructorRequestFormModel\<close>: the object literal passed to
  \<open>requestSubmissionEvent.emit\<close>.
\<close>

record InstructorRequestFormModel =
  name :: string
  institution :: string
  country :: string
  email :: string
  comments :: string

text \<open>
  \<open>AccountCreateRequest\<close>: the object literal \<open>requestData\<close>; \<open>instructorComments\<close> is
  the one property that is only assigned conditionally.
\<close>

record AccountCreateRequest =
  instructorEmail :: string
  instructorName :: string
  instructorInstitution :: string
  captchaResponse :: string
  instructorComments :: "string option"

text \<open>\<open>ErrorMessageOutput\<close>: only \<open>resp.error.message\<close> is read.\<close>

record MessageOutput =
  message :: string

record ErrorMessageOutput =
  error :: MessageOutput

text \<open>
  A form control, as far as the component reads it: its value (\<open>val\<close>; every read in
  the source is \<open>value!\<close>, a string), and the framework's \<open>invalid\<close> and \<open>dirty\<close> flags.
  The validators themselves (lengths and patterns of \<open>FormValidator\<close>) are run by the
  framework and only their outcome, the \<open>invalid\<close> flag, is visible to the component.
\<close>

record FormControl =
  val :: string
  invalid :: bool
  dirty :: bool

record arf_controls =
  name :: FormControl
  institution :: FormControl
  country :: FormControl
  email :: FormControl
  comments :: FormControl
  recaptcha :: FormControl

record FormGroup =
  controls :: arf_controls

text \<open>\<open>Object.values(arf.controls)\<close>, in the order the controls are declared.\<close>

definition Object_values :: "arf_controls \<Rightarrow> FormControl list" where
  "Object_values cs =
     [name cs, institution cs, country cs, email cs, comments cs, recaptcha cs]"

text \<open>
  \<open>arf.invalid\<close>: the group has no validator of its own, so it is invalid exactly when
  one of its controls is.
\<close>

definition FormGroup_invalid :: "FormGroup \<Rightarrow> bool" where
  "FormGroup_invalid g \<longleftrightarrow> list_ex invalid (Object_values (controls g))"

text \<open>
  The component's mutable members. The members \<open>name\<close>, \<open>institution\<close>, \<open>country\<close>,
  \<open>email\<close> and \<open>comments\<close> of the class are references to the controls of \<open>arf\<close> and are
  read here as \<open>name (controls (arf this))\<close> and so on. The length constants, \<open>size\<close> and
  \<open>lang\<close> are read by the template only; no method reads or writes them.
\<close>

record InstructorRequestFormComponent =
  captchaSiteKey :: string
  isCaptchaSuccessful :: bool
  captchaResponse :: "string option"
  arf :: FormGroup
  hasSubmitAttempt :: bool
  isLoading :: bool
  serverErrorMessage :: string

text \<open>
  The component as constructed, for a given \<open>environment.captchaSiteKey\<close>. A control with
  \<open>Validators.required\<close> and the initial value \<open>''\<close> starts invalid.
\<close>

definition new_control :: "bool \<Rightarrow> FormControl" where
  "new_control required = \<lparr>val = [], invalid = required, dirty = False\<rparr>"

definition new_component :: "string \<Rightarrow> InstructorRequestFormComponent" where
  "new_component siteKey =
     \<lparr>captchaSiteKey = siteKey,
      isCaptchaSuccessful = False,
      captchaResponse = None,
      arf = \<lparr>controls =
        \<lparr>name = new_control True, institution = new_control True,
         country = new_control True, email = new_control True,
         comments = new_control False, recaptcha = new_control False\<rparr>\<rparr>,
      hasSubmitAttempt = False,
      isLoading = False,
      serverErrorMessage = []\<rparr>"

section \<open>Effects on the outside world\<close>

text \<open>
  What a method does outside the component is returned as a list of effects, in the
  order in which they happen.
\<close>

datatype effect =
    CreateAccountRequest AccountCreateRequest
  | Emit InstructorRequestFormModel
  | Navigate "string list"
  | Confirm string

section \<open>Methods\<close>

definition canSubmit :: "InstructorRequestFormComponent \<Rightarrow> bool" where
  "canSubmit this \<longleftrightarrow> \<not> isLoading this"

definition getFieldValidationClasses ::
    "InstructorRequestFormComponent \<Rightarrow> FormControl \<Rightarrow> string" where
  "getFieldValidationClasses this field =
     (if hasSubmitAttempt this then
        (if invalid field then ''is-invalid''
         else if val field \<noteq> [] then ''is-valid''
         else [])
      else [])"

definition handleCaptchaSuccess ::
    "string \<Rightarrow> InstructorRequestFormComponent \<Rightarrow> InstructorRequestFormComponent" where
  "handleCaptchaSuccess response this =
     this\<lparr>isCaptchaSuccessful := True, captchaResponse := Some response\<rparr>"

text \<open>
  \<open>onSubmit\<close> up to and including the call of \<open>createAccountRequest\<close> and \<open>subscribe\<close>.
  It returns the component and, when the request is sent, the subscription: the request
  and the constants \<open>name\<close>, \<open>institution\<close>, \<open>country\<close>, \<open>email\<close>, \<open>comments\<close> that the
  \<open>next\<close> callback has captured. The non-null assertion \<open>captchaResponse!\<close> is read
  with \<open>the\<close>: past the guard, a configured site key comes with a token.
\<close>

record subscription =
  requestData :: AccountCreateRequest
  captured :: InstructorRequestFormModel

definition onSubmit ::
    "InstructorRequestFormComponent \<Rightarrow> InstructorRequestFormComponent \<times> subscription option" where
  "onSubmit this0 =
     (let this1 = this0\<lparr>hasSubmitAttempt := True\<rparr>;
          this2 = this1\<lparr>isLoading := True\<rparr>;
          this3 = this2\<lparr>serverErrorMessage := []\<rparr>
      in if FormGroup_invalid (arf this3)
            \<or> (truthy (captchaSiteKey this3) \<and> \<not> truthy_opt (captchaResponse this3))
         then (this3\<lparr>isLoading := False\<rparr>, None)
         else
           (let name' = trim (val (name (controls (arf this3))));
                email' = trim (val (email (controls (arf this3))));
                comments' = trim (val (comments (controls (arf this3))));
                country' = trim (val (country (controls (arf this3))));
                institution' = trim (val (institution (controls (arf this3))));
                combinedInstitution = institution' @ '', '' @ country';
                requestData0 =
                  \<lparr>instructorEmail = email',
                   instructorName = name',
                   instructorInstitution = combinedInstitution,
                   AccountCreateRequest.captchaResponse =
                     (if truthy (captchaSiteKey this3) then the (captchaResponse this3) else []),
                   instructorComments = None\<rparr>;
                requestData1 =
                  (if truthy comments' then requestData0\<lparr>instructorComments := Some comments'\<rparr>
                   else requestData0)
            in (this3,
                Some \<lparr>requestData = requestData1,
                      captured =
                        \<lparr>InstructorRequestFormModel.name = name',
                         InstructorRequestFormModel.institution = institution',
                         InstructorRequestFormModel.country = country',
                         InstructorRequestFormModel.email = email',
                         InstructorRequestFormModel.comments = comments'\<rparr>\<rparr>)))"

text \<open>
  Modelled from the spec: the service behind \<open>createAccountRequest\<close> is not part of the
  sources; by the spec the call ends in \<open>success | error(message)\<close>. This is the outcome
  of the backend call; the value delivered on success is ignored by the \<open>next\<close> callback.
\<close>

datatype outcome = Success | Failure ErrorMessageOutput

text \<open>The three callbacks of the subscription.\<close>

definition next_cb :: "subscription \<Rightarrow> effect list" where
  "next_cb sub = [Emit (captured sub)]"

definition error_cb ::
    "ErrorMessageOutput \<Rightarrow> InstructorRequestFormComponent \<Rightarrow> InstructorRequestFormComponent" where
  "error_cb resp this = this\<lparr>serverErrorMessage := message (error resp)\<rparr>"

definition finalize_cb :: "InstructorRequestFormComponent \<Rightarrow> InstructorRequestFormComponent" where
  "finalize_cb this = this\<lparr>isLoading := False\<rparr>"

text \<open>
  Delivery of the outcome to a subscription: \<open>next\<close> on success, \<open>error\<close> on failure, and
  \<open>finalize\<close> when the stream ends either way.
\<close>

fun settle ::
    "outcome \<Rightarrow> subscription \<Rightarrow> InstructorRequestFormComponent
      \<Rightarrow> InstructorRequestFormComponent \<times> effect list" where
  "settle Success sub this = (finalize_cb this, next_cb sub)"
| "settle (Failure resp) sub this = (finalize_cb (error_cb resp this), [])"

text \<open>
  A whole submission: \<open>onSubmit\<close>, and the delivery of the backend's answer to the
  request, with the service given as a function.
\<close>

definition submit ::
    "(AccountCreateRequest \<Rightarrow> outcome) \<Rightarrow> InstructorRequestFormComponent
      \<Rightarrow> InstructorRequestFormComponent \<times> effect list" where
  "submit accountService this =
     (case onSubmit this of
        (this', None) \<Rightarrow> (this', [])
      | (this', Some sub) \<Rightarrow>
          (case settle (accountService (requestData sub)) sub this' of
             (this'', effects) \<Rightarrow> (this'', CreateAccountRequest (requestData sub) # effects)))"

text \<open>
  \<open>onCancel\<close>; \<open>answer\<close> is what the user replies if the \<open>confirm\<close> dialog is shown.
\<close>

definition onCancel :: "bool \<Rightarrow> InstructorRequestFormComponent \<Rightarrow> effect list" where
  "onCancel answer this =
     (let isFormDirty = list_ex dirty (Object_values (controls (arf this)))
      in if isFormDirty then
           (let confirmed = answer
            in Confirm ''Are you sure you want to cancel? You will lose all unsaved changes.''
                 # (if confirmed then [Navigate [''/web/front/home'']] else []))
         else [Navigate [''/web/front/home'']])"

section \<open>The page around the component\<close>

text \<open>
  The page holds the component and the subscriptions whose outcome has not arrived yet.
  Its events: the user presses the submit button, the outcome of the request with a
  given position among the pending ones arrives, the captcha widget reports a token, and
  the user edits the form (which replaces the controls' values and flags).
\<close>

record page =
  component :: InstructorRequestFormComponent
  pending :: "subscription list"

datatype page_event =
    Press_submit
  | Outcome_arrives nat outcome
  | Captcha_solved string
  | Form_edited FormGroup

definition new_page :: "string \<Rightarrow> page" where
  "new_page siteKey = \<lparr>component = new_component siteKey, pending = []\<rparr>"

text \<open>
  Modelled from the spec: the template, which binds the submit button to \<open>canSubmit\<close>, is
  not part of the sources; by the spec the loading flag disables re-submission, so a
  press of the button reaches \<open>onSubmit\<close> only while \<open>canSubmit\<close> holds. The other
  events call the component's own code.
\<close>

fun step :: "page \<Rightarrow> page_event \<Rightarrow> page" where
  "step pg Press_submit =
     (if canSubmit (component pg) then
        (case onSubmit (component pg) of
           (this', None) \<Rightarrow> pg\<lparr>component := this'\<rparr>
         | (this', Some sub) \<Rightarrow> \<lparr>component = this', pending = pending pg @ [sub]\<rparr>)
      else pg)"
| "step pg (Outcome_arrives i r) =
     (if i < length (pending pg) then
        \<lparr>component = fst (settle r (pending pg ! i) (component pg)),
         pending = take i (pending pg) @ drop (Suc i) (pending pg)\<rparr>
      else pg)"
| "step pg (Captcha_solved response) =
     pg\<lparr>component := handleCaptchaSuccess response (component pg)\<rparr>"
| "step pg (Form_edited g) = pg\<lparr>component := (component pg)\<lparr>arf := g\<rparr>\<rparr>"

definition run :: "page \<Rightarrow> page_event list \<Rightarrow> page" where
  "run pg events = foldl step pg events"

section \<open>Sample states\<close>

text \<open>A filled-in form with the given comments, all controls valid.\<close>

definition sample_controls :: "string \<Rightarrow> arf_controls" where
  "sample_controls cmt =
     \<lparr>name = \<lparr>val = '' Ada Lovelace'', invalid = False, dirty = True\<rparr>,
      institution = \<lparr>val = ''Analytical Society  '', invalid = False, dirty = True\<rparr>,
      country = \<lparr>val = '' UK '', invalid = False, dirty = True\<rparr>,
      email = \<lparr>val = ''ada@example.org'', invalid = False, dirty = True\<rparr>,
      comments = \<lparr>val = cmt, invalid = False, dirty = (cmt \<noteq> [])\<rparr>,
      recaptcha = new_control False\<rparr>"

definition sample_component ::
    "string \<Rightarrow> string option \<Rightarrow> string \<Rightarrow> InstructorRequestFormComponent" where
  "sample_component siteKey token cmt =
     (new_component siteKey)
       \<lparr>isCaptchaSuccessful := (token \<noteq> None),
        captchaResponse := token,
        arf := \<lparr>controls = sample_controls cmt\<rparr>\<rparr>"

section \<open>Properties of \<open>trim\<close>\<close>

text \<open>
  \<open>trim\<close> cuts a run of white space off each end and nothing else: what is left neither
  starts nor ends with white space.
\<close>

lemma dropWhile_splits_ws:
  "\<exists>pre. s = pre @ dropWhile isWhiteSpace s \<and> (\<forall>c\<in>set pre. isWhiteSpace c)"
proof
  show "s = takeWhile isWhiteSpace s @ dropWhile isWhiteSpace s
        \<and> (\<forall>c\<in>set (takeWhile isWhiteSpace s). isWhiteSpace c)"
    by (auto dest: set_takeWhileD)
qed

lemma trim_suffix_ws:
  "\<exists>post. dropWhile isWhiteSpace s = trim s @ post \<and> (\<forall>c\<in>set post. isWhiteSpace c)"
proof -
  let ?t = "dropWhile isWhiteSpace s"
  obtain q where q: "rev ?t = q @ dropWhile isWhiteSpace (rev ?t)" "\<forall>c\<in>set q. isWhiteSpace c"
    using dropWhile_splits_ws by blast
  have "?t = rev (rev ?t)" by simp
  also have "\<dots> = rev (q @ dropWhile isWhiteSpace (rev ?t))" using q(1) by simp
  also have "\<dots> = trim s @ rev q" by (simp add: trim_def)
  finally have "?t = trim s @ rev q" .
  with q(2) show ?thesis by auto
qed

lemma trim_splits:
  "\<exists>pre post. s = pre @ trim s @ post
     \<and> (\<forall>c\<in>set pre. isWhiteSpace c) \<and> (\<forall>c\<in>set post. isWhiteSpace c)"
proof -
  obtain pre where pre: "s = pre @ dropWhile isWhiteSpace s" "\<forall>c\<in>set pre. isWhiteSpace c"
    using dropWhile_splits_ws by blast
  obtain post where post: "dropWhile isWhiteSpace s = trim s @ post" "\<forall>c\<in>set post. isWhiteSpace c"
    using trim_suffix_ws by blast
  from pre(1) post(1) have "s = pre @ trim s @ post" by simp
  with pre(2) post(2) show ?thesis by blast
qed

lemma trim_no_leading:
  assumes "trim s \<noteq> []"
  shows "\<not> isWhiteSpace (hd (trim s))"
proof -
  obtain post where post: "dropWhile isWhiteSpace s = trim s @ post"
    using trim_suffix_ws by blast
  with assms have "dropWhile isWhiteSpace s \<noteq> []" by simp
  then have "\<not> isWhiteSpace (hd (dropWhile isWhiteSpace s))" by (rule hd_dropWhile)
  with post assms show ?thesis by simp
qed

lemma trim_no_trailing:
  assumes "trim s \<noteq> []"
  shows "\<not> isWhiteSpace (last (trim s))"
proof -
  let ?u = "dropWhile isWhiteSpace (rev (dropWhile isWhiteSpace s))"
  from assms have u: "?u \<noteq> []" by (simp add: trim_def)
  then have "\<not> isWhiteSpace (hd ?u)" by (rule hd_dropWhile)
  with u show ?thesis by (simp add: trim_def last_rev)
qed

section \<open>What \<open>onSubmit\<close> returns\<close>

text \<open>The early return: nothing is sent and the loading flag is down again.\<close>

lemma onSubmit_blocked:
  assumes "FormGroup_invalid (arf this)
           \<or> (truthy (captchaSiteKey this) \<and> \<not> truthy_opt (captchaResponse this))"
  shows "onSubmit this =
           (this\<lparr>hasSubmitAttempt := True, isLoading := False, serverErrorMessage := []\<rparr>, None)"
  using assms by (simp add: onSubmit_def Let_def)

text \<open>Otherwise a request is sent and the loading flag stays up.\<close>

lemma onSubmit_sent:
  assumes "\<not> FormGroup_invalid (arf this)"
      and "truthy (captchaSiteKey this) \<longrightarrow> truthy_opt (captchaResponse this)"
  shows "\<exists>sub. onSubmit this =
           (this\<lparr>hasSubmitAttempt := True, isLoading := True, serverErrorMessage := []\<rparr>, Some sub)"
  using assms by (auto simp add: onSubmit_def Let_def)

lemma onSubmit_component:
  "fst (onSubmit this) =
     this\<lparr>hasSubmitAttempt := True, isLoading := (snd (onSubmit this) \<noteq> None),
          serverErrorMessage := []\<rparr>"
  by (simp add: onSubmit_def Let_def)

text \<open>The request and the values captured for the event, in terms of the form.\<close>

lemma onSubmit_request:
  assumes "onSubmit this = (this', Some sub)"
  shows "requestData sub =
     \<lparr>instructorEmail = trim (val (email (controls (arf this)))),
      instructorName = trim (val (name (controls (arf this)))),
      instructorInstitution =
        trim (val (institution (controls (arf this)))) @ '', ''
          @ trim (val (country (controls (arf this)))),
      captchaResponse =
        (if captchaSiteKey this \<noteq> [] then the (captchaResponse this) else []),
      instructorComments =
        (if trim (val (comments (controls (arf this)))) \<noteq> []
         then Some (trim (val (comments (controls (arf this))))) else None)\<rparr>"
  using assms by (auto simp add: onSubmit_def Let_def truthy_def split: if_splits)

lemma onSubmit_captured:
  assumes "onSubmit this = (this', Some sub)"
  shows "captured sub =
     \<lparr>InstructorRequestFormModel.name = trim (val (name (controls (arf this)))),
      InstructorRequestFormModel.institution = trim (val (institution (controls (arf this)))),
      InstructorRequestFormModel.country = trim (val (country (controls (arf this)))),
      InstructorRequestFormModel.email = trim (val (email (controls (arf this)))),
      InstructorRequestFormModel.comments = trim (val (comments (controls (arf this))))\<rparr>"
  using assms by (auto simp add: onSubmit_def Let_def split: if_splits)

text \<open>A request is sent exactly when the form is valid and the captcha, if configured, is solved.\<close>

lemma onSubmit_Some_iff:
  "(snd (onSubmit this) \<noteq> None) \<longleftrightarrow>
     \<not> FormGroup_invalid (arf this)
     \<and> (captchaSiteKey this = [] \<or> (\<exists>t. captchaResponse this = Some t \<and> t \<noteq> []))"
  by (cases "captchaResponse this") (auto simp add: onSubmit_def Let_def truthy_def)

lemma valid_submission_is_sent:
  assumes "\<not> FormGroup_invalid (arf this)"
      and "captchaSiteKey this = []
           \<or> (\<exists>t. InstructorRequestFormComponent.captchaResponse this = Some t \<and> t \<noteq> [])"
  shows "\<exists>this' sub. onSubmit this = (this', Some sub)"
proof -
  from assms onSubmit_Some_iff [of this] have "snd (onSubmit this) \<noteq> None" by blast
  then show ?thesis by (cases "onSubmit this") auto
qed

section \<open>The loading flag and the pending request\<close>

text \<open>
  However the outcome turns out, its delivery lowers the loading flag; and along every
  sequence of page events there is at most one pending request, and there is one exactly
  while the loading flag is up.
\<close>

lemma settle_isLoading: "\<not> isLoading (fst (settle r sub this))"
  by (cases r) (simp_all add: finalize_cb_def error_cb_def)

lemma step_keeps_one_pending:
  assumes "length (pending pg) \<le> 1"
      and "isLoading (component pg) \<longleftrightarrow> pending pg \<noteq> []"
  shows "length (pending (step pg e)) \<le> 1
         \<and> (isLoading (component (step pg e)) \<longleftrightarrow> pending (step pg e) \<noteq> [])"
proof (cases e)
  case Press_submit
  show ?thesis
  proof (cases "canSubmit (component pg)")
    case False
    with Press_submit assms show ?thesis by simp
  next
    case True
    with assms have empty: "pending pg = []" by (simp add: canSubmit_def)
    obtain this' r where r: "onSubmit (component pg) = (this', r)" by (cases "onSubmit (component pg)")
    have l: "isLoading this' \<longleftrightarrow> r \<noteq> None"
      using onSubmit_component [of "component pg"] r by simp
    show ?thesis
    proof (cases r)
      case None
      with Press_submit True r l empty show ?thesis by simp
    next
      case (Some sub)
      with Press_submit True r l empty show ?thesis by simp
    qed
  qed
next
  case (Outcome_arrives i r)
  show ?thesis
  proof (cases "i < length (pending pg)")
    case False
    with Outcome_arrives assms show ?thesis by simp
  next
    case True
    with assms(1) have "i = 0" "length (pending pg) = 1" by simp_all
    with Outcome_arrives True show ?thesis by (simp add: settle_isLoading)
  qed
next
  case (Captcha_solved response)
  with assms show ?thesis by (simp add: handleCaptchaSuccess_def)
next
  case (Form_edited g)
  with assms show ?thesis by simp
qed

lemma run_keeps_one_pending:
  assumes "length (pending pg) \<le> 1"
      and "isLoading (component pg) \<longleftrightarrow> pending pg \<noteq> []"
  shows "length (pending (run pg events)) \<le> 1
         \<and> (isLoading (component (run pg events)) \<longleftrightarrow> pending (run pg events) \<noteq> [])"
proof (induction events rule: rev_induct)
  case Nil
  from assms show ?case by (simp add: run_def)
next
  case (snoc e events)
  have "run pg (events @ [e]) = step (run pg events) e" by (simp add: run_def)
  with snoc step_keeps_one_pending [of "run pg events" e] show ?case by simp
qed

section \<open>The sample states\<close>

text \<open>The new component has empty required fields; the sample form is valid.\<close>

lemma new_component_invalid: "FormGroup_invalid (arf (new_component siteKey))"
  by (simp add: new_component_def new_control_def FormGroup_invalid_def Object_values_def)

lemma sample_component_valid: "\<not> FormGroup_invalid (arf (sample_component siteKey token cmt))"
  by (simp add: sample_component_def sample_controls_def new_control_def
      FormGroup_invalid_def Object_values_def)

lemma sample_component_fields:
  "captchaSiteKey (sample_component siteKey token cmt) = siteKey"
  "InstructorRequestFormComponent.captchaResponse (sample_component siteKey token cmt) = token"
  "isLoading (sample_component siteKey token cmt) = False"
  "hasSubmitAttempt (sample_component siteKey token cmt) = False"
  "serverErrorMessage (sample_component siteKey token cmt) = []"
  "controls (arf (sample_component siteKey token cmt)) = sample_controls cmt"
  by (simp_all add: sample_component_def new_component_def)

lemma sample_trimmed:
  "trim (val (arf_controls.name (sample_controls cmt))) = ''Ada Lovelace''"
  "trim (val (arf_controls.institution (sample_controls cmt))) = ''Analytical Society''"
  "trim (val (arf_controls.country (sample_controls cmt))) = ''UK''"
  "trim (val (arf_controls.email (sample_controls cmt))) = ''ada@example.org''"
  "trim (val (arf_controls.comments (sample_controls cmt))) = trim cmt"
  by (simp_all add: sample_controls_def trim_def isWhiteSpace_def)

lemma trim_examples:
  "trim ''  hi '' = ''hi''"
  "trim ''   '' = []"
  "trim [] = []"
  by (simp_all add: trim_def isWhiteSpace_def)


text \<open>
  On a new page the user fills in the form, solves the captcha and presses the button
  twice: one request is pending, the second press did nothing.
\<close>

lemma sample_page_sends:
  "\<exists>sub. run (new_page ''site-key'')
       [Form_edited \<lparr>controls = sample_controls ''hi''\<rparr>, Captcha_solved ''token'',
        Press_submit, Press_submit]
     = \<lparr>component =
          (sample_component ''site-key'' (Some ''token'') ''hi'')
            \<lparr>hasSubmitAttempt := True, isLoading := True\<rparr>,
        pending = [sub]\<rparr>"
proof -
  let ?c = "sample_component ''site-key'' (Some ''token'') ''hi''"
  have valid: "\<not> FormGroup_invalid (arf ?c)" by (rule sample_component_valid)
  have captcha: "truthy (captchaSiteKey ?c)
      \<longrightarrow> truthy_opt (InstructorRequestFormComponent.captchaResponse ?c)"
    by (simp add: sample_component_fields truthy_def)
  from onSubmit_sent [OF valid captcha] obtain sub where
    s: "onSubmit ?c =
          (?c\<lparr>hasSubmitAttempt := True, isLoading := True, serverErrorMessage := []\<rparr>, Some sub)"
    by blast
  have before: "run (new_page ''site-key'')
       [Form_edited \<lparr>controls = sample_controls ''hi''\<rparr>, Captcha_solved ''token'']
     = \<lparr>component = ?c, pending = []\<rparr>"
    by (simp add: run_def new_page_def sample_component_def new_component_def
        handleCaptchaSuccess_def)
  have free: "\<not> isLoading ?c" by (simp add: sample_component_fields)
  have "run (new_page ''site-key'')
       [Form_edited \<lparr>controls = sample_controls ''hi''\<rparr>, Captcha_solved ''token'',
        Press_submit, Press_submit]
     = step (step (run (new_page ''site-key'')
          [Form_edited \<lparr>controls = sample_controls ''hi''\<rparr>, Captcha_solved ''token''])
          Press_submit) Press_submit"
    by (simp add: run_def)
  also have "\<dots> = \<lparr>component =
        ?c\<lparr>hasSubmitAttempt := True, isLoading := True, serverErrorMessage := []\<rparr>,
      pending = [sub]\<rparr>"
    by (simp add: before free s canSubmit_def)
  also have "?c\<lparr>hasSubmitAttempt := True, isLoading := True, serverErrorMessage := []\<rparr>
      = ?c\<lparr>hasSubmitAttempt := True, isLoading := True\<rparr>"
    by (simp add: sample_component_def new_component_def)
  finally show ?thesis by blast
qed

section \<open>Validation classes\<close>

text \<open>
  C10. \<open>getFieldValidationClasses\<close> returns the empty string for every field while
  \<open>hasSubmitAttempt\<close> is false; once it is true, the result is \<open>is-invalid\<close> for an
  invalid field, \<open>is-valid\<close> for a valid field with a non-empty value, and the empty
  string for a valid field with an empty value.
\<close>

theorem getFieldValidationClasses_cases:
  "(\<not> hasSubmitAttempt this \<longrightarrow> getFieldValidationClasses this field = [])
   \<and> (hasSubmitAttempt this \<and> invalid field
        \<longrightarrow> getFieldValidationClasses this field = ''is-invalid'')
   \<and> (hasSubmitAttempt this \<and> \<not> invalid field \<and> val field \<noteq> []
        \<longrightarrow> getFieldValidationClasses this field = ''is-valid'')
   \<and> (hasSubmitAttempt this \<and> \<not> invalid field \<and> val field = []
        \<longrightarrow> getFieldValidationClasses this field = [])"
  by (simp add: getFieldValidationClasses_def)

theorem getFieldValidationClasses_cases_witness:
  "\<not> hasSubmitAttempt (new_component ''site-key'')
   \<and> getFieldValidationClasses (new_component ''site-key'') (new_control True) = []
   \<and> hasSubmitAttempt (fst (onSubmit (new_component ''site-key'')))
   \<and> invalid (new_control True)
   \<and> getFieldValidationClasses (fst (onSubmit (new_component ''site-key''))) (new_control True)
        = ''is-invalid''
   \<and> \<not> invalid \<lparr>val = ''Ada'', invalid = False, dirty = True\<rparr>
   \<and> getFieldValidationClasses (fst (onSubmit (new_component ''site-key'')))
        \<lparr>val = ''Ada'', invalid = False, dirty = True\<rparr> = ''is-valid''
   \<and> \<not> invalid (new_control False) \<and> val (new_control False) = []
   \<and> getFieldValidationClasses (fst (onSubmit (new_component ''site-key''))) (new_control False)
        = []"
proof -
  have a: "\<not> hasSubmitAttempt (new_component ''site-key'')"
    by (simp add: new_component_def)
  have b: "hasSubmitAttempt (fst (onSubmit (new_component ''site-key'')))"
    by (simp add: onSubmit_component)
  from a b
    getFieldValidationClasses_cases [of "new_component ''site-key''" "new_control True"]
    getFieldValidationClasses_cases
      [of "fst (onSubmit (new_component ''site-key''))" "new_control True"]
    getFieldValidationClasses_cases
      [of "fst (onSubmit (new_component ''site-key''))"
          "\<lparr>val = ''Ada'', invalid = False, dirty = True\<rparr>"]
    getFieldValidationClasses_cases
      [of "fst (onSubmit (new_component ''site-key''))" "new_control False"]
  show ?thesis by (simp add: new_control_def)
qed

section \<open>Blocked submissions\<close>

text \<open>
  C1. In every state in which the form group is invalid, or a captcha site key is
  configured and no captcha response token has been received (an empty token counts as
  none), \<open>onSubmit\<close> sends no create-account request, emits no
  \<open>requestSubmissionEvent\<close>, and returns with \<open>isLoading\<close> false.
\<close>

theorem blocked_submission_sends_nothing:
  assumes "FormGroup_invalid (arf this)
           \<or> (captchaSiteKey this \<noteq> []
               \<and> (InstructorRequestFormComponent.captchaResponse this = None
                    \<or> InstructorRequestFormComponent.captchaResponse this = Some []))"
  shows "snd (onSubmit this) = None
         \<and> snd (submit accountService this) = []
         \<and> \<not> isLoading (fst (onSubmit this))
         \<and> \<not> isLoading (fst (submit accountService this))"
proof -
  from assms have "FormGroup_invalid (arf this)
      \<or> (truthy (captchaSiteKey this)
           \<and> \<not> truthy_opt (InstructorRequestFormComponent.captchaResponse this))"
    by (auto simp add: truthy_def)
  then have "onSubmit this =
      (this\<lparr>hasSubmitAttempt := True, isLoading := False, serverErrorMessage := []\<rparr>, None)"
    by (rule onSubmit_blocked)
  then show ?thesis by (simp add: submit_def)
qed

theorem blocked_submission_sends_nothing_witness:
  "FormGroup_invalid (arf (new_component ''site-key''))
   \<and> snd (onSubmit (new_component ''site-key'')) = None
   \<and> snd (submit (\<lambda>_. Success) (new_component ''site-key'')) = []
   \<and> \<not> isLoading (fst (submit (\<lambda>_. Success) (new_component ''site-key'')))
   \<and> \<not> FormGroup_invalid (arf (sample_component ''site-key'' None ''hello''))
   \<and> captchaSiteKey (sample_component ''site-key'' None ''hello'') \<noteq> []
   \<and> InstructorRequestFormComponent.captchaResponse (sample_component ''site-key'' None ''hello'')
        = None
   \<and> snd (onSubmit (sample_component ''site-key'' None ''hello'')) = None
   \<and> snd (submit (\<lambda>_. Success) (sample_component ''site-key'' None ''hello'')) = []
   \<and> \<not> isLoading (fst (submit (\<lambda>_. Success) (sample_component ''site-key'' None ''hello'')))"
proof -
  have a: "FormGroup_invalid (arf (new_component ''site-key''))"
    by (rule new_component_invalid)
  have b: "captchaSiteKey (sample_component ''site-key'' None ''hello'') \<noteq> []
           \<and> InstructorRequestFormComponent.captchaResponse
                (sample_component ''site-key'' None ''hello'') = None"
    by (simp add: sample_component_fields)
  from a b
    blocked_submission_sends_nothing [of "new_component ''site-key''" "\<lambda>_. Success"]
    blocked_submission_sends_nothing [of "sample_component ''site-key'' None ''hello''" "\<lambda>_. Success"]
  show ?thesis by (simp add: sample_component_valid)
qed

section \<open>The request of a valid submission\<close>

text \<open>
  C2. For every valid submission (form valid and captcha satisfied), the
  \<open>instructorInstitution\<close> field of the request that is sent is the trimmed institution,
  followed by a comma and a space, followed by the trimmed country.
\<close>

theorem request_institution_is_combined:
  assumes "\<not> FormGroup_invalid (arf this)"
      and "captchaSiteKey this = []
           \<or> (\<exists>t. InstructorRequestFormComponent.captchaResponse this = Some t \<and> t \<noteq> [])"
  shows "\<exists>this' sub. onSubmit this = (this', Some sub)
           \<and> instructorInstitution (requestData sub) =
               trim (val (institution (controls (arf this)))) @ '', ''
                 @ trim (val (country (controls (arf this))))
           \<and> (\<exists>effects. snd (submit accountService this) =
                 CreateAccountRequest (requestData sub) # effects)"
proof -
  from assms obtain this' sub where s: "onSubmit this = (this', Some sub)"
    using valid_submission_is_sent by blast
  from s have "instructorInstitution (requestData sub) =
      trim (val (institution (controls (arf this)))) @ '', ''
        @ trim (val (country (controls (arf this))))"
    by (simp add: onSubmit_request)
  moreover from s have "\<exists>effects. snd (submit accountService this) =
      CreateAccountRequest (requestData sub) # effects"
    by (simp add: submit_def split: prod.split)
  ultimately show ?thesis using s by blast
qed

theorem request_institution_is_combined_witness:
  "\<not> FormGroup_invalid (arf (sample_component ''site-key'' (Some ''token'') ''  hi ''))
   \<and> (\<exists>this' sub.
         onSubmit (sample_component ''site-key'' (Some ''token'') ''  hi '') = (this', Some sub)
         \<and> instructorInstitution (requestData sub) = ''Analytical Society, UK'')"
proof -
  let ?S = "sample_component ''site-key'' (Some ''token'') ''  hi ''"
  have v: "\<not> FormGroup_invalid (arf ?S)" by (rule sample_component_valid)
  have c: "captchaSiteKey ?S = []
      \<or> (\<exists>t. InstructorRequestFormComponent.captchaResponse ?S = Some t \<and> t \<noteq> [])"
    by (simp add: sample_component_fields)
  from request_institution_is_combined [OF v c, of "\<lambda>_. Success"] v
  show ?thesis by (auto simp add: sample_component_fields sample_trimmed)
qed

text \<open>
  C7. For every valid submission, the request has an \<open>instructorComments\<close> field if and
  only if the trimmed comments are non-empty (and the field then holds them), and its
  \<open>captchaResponse\<close> field is the received captcha token when a captcha site key is
  configured and the empty string otherwise.
\<close>

theorem request_optional_fields:
  assumes "\<not> FormGroup_invalid (arf this)"
      and "captchaSiteKey this = []
           \<or> (\<exists>t. InstructorRequestFormComponent.captchaResponse this = Some t \<and> t \<noteq> [])"
  shows "\<exists>this' sub. onSubmit this = (this', Some sub)
           \<and> (instructorComments (requestData sub) \<noteq> None
                \<longleftrightarrow> trim (val (comments (controls (arf this)))) \<noteq> [])
           \<and> (trim (val (comments (controls (arf this)))) \<noteq> [] \<longrightarrow>
                instructorComments (requestData sub)
                  = Some (trim (val (comments (controls (arf this))))))
           \<and> (captchaSiteKey this \<noteq> [] \<longrightarrow>
                Some (AccountCreateRequest.captchaResponse (requestData sub))
                  = InstructorRequestFormComponent.captchaResponse this)
           \<and> (captchaSiteKey this = [] \<longrightarrow>
                AccountCreateRequest.captchaResponse (requestData sub) = [])"
proof -
  from assms obtain this' sub where s: "onSubmit this = (this', Some sub)"
    using valid_submission_is_sent by blast
  note r = onSubmit_request [OF s]
  have "instructorComments (requestData sub) \<noteq> None
          \<longleftrightarrow> trim (val (comments (controls (arf this)))) \<noteq> []"
    by (simp add: r)
  moreover have "trim (val (comments (controls (arf this)))) \<noteq> [] \<longrightarrow>
      instructorComments (requestData sub) = Some (trim (val (comments (controls (arf this)))))"
    by (simp add: r)
  moreover have "captchaSiteKey this \<noteq> [] \<longrightarrow>
      Some (AccountCreateRequest.captchaResponse (requestData sub))
        = InstructorRequestFormComponent.captchaResponse this"
    using assms(2) by (auto simp add: r)
  moreover have "captchaSiteKey this = [] \<longrightarrow>
      AccountCreateRequest.captchaResponse (requestData sub) = []"
    by (simp add: r)
  ultimately show ?thesis using s by blast
qed

theorem request_optional_fields_witness:
  "\<not> FormGroup_invalid (arf (sample_component ''site-key'' (Some ''token'') ''  hi ''))
   \<and> (\<exists>this' sub.
         onSubmit (sample_component ''site-key'' (Some ''token'') ''  hi '') = (this', Some sub)
         \<and> instructorComments (requestData sub) = Some ''hi''
         \<and> AccountCreateRequest.captchaResponse (requestData sub) = ''token'')
   \<and> \<not> FormGroup_invalid (arf (sample_component [] None ''   ''))
   \<and> (\<exists>this' sub.
         onSubmit (sample_component [] None ''   '') = (this', Some sub)
         \<and> instructorComments (requestData sub) = None
         \<and> AccountCreateRequest.captchaResponse (requestData sub) = [])"
proof -
  let ?S = "sample_component ''site-key'' (Some ''token'') ''  hi ''"
  let ?T = "sample_component [] None ''   ''"
  have v: "\<not> FormGroup_invalid (arf ?S)" "\<not> FormGroup_invalid (arf ?T)"
    by (rule sample_component_valid)+
  have c: "captchaSiteKey ?S = []
      \<or> (\<exists>t. InstructorRequestFormComponent.captchaResponse ?S = Some t \<and> t \<noteq> [])"
    by (simp add: sample_component_fields)
  have d: "captchaSiteKey ?T = []
      \<or> (\<exists>t. InstructorRequestFormComponent.captchaResponse ?T = Some t \<and> t \<noteq> [])"
    by (simp add: sample_component_fields)
  have one: "\<exists>this' sub. onSubmit ?S = (this', Some sub)
         \<and> instructorComments (requestData sub) = Some ''hi''
         \<and> AccountCreateRequest.captchaResponse (requestData sub) = ''token''"
    using request_optional_fields [OF v(1) c]
    by (auto simp add: sample_component_fields sample_trimmed trim_examples)
  have two: "\<exists>this' sub. onSubmit ?T = (this', Some sub)
         \<and> instructorComments (requestData sub) = None
         \<and> AccountCreateRequest.captchaResponse (requestData sub) = []"
    using request_optional_fields [OF v(2) d]
    by (auto simp add: sample_component_fields sample_trimmed trim_examples)
  from v one two show ?thesis by blast
qed

section \<open>The outcome of the request\<close>

text \<open>
  C3. For every valid submission whose backend call succeeds, the component emits exactly
  one \<open>requestSubmissionEvent\<close>: the effects of the submission are the request and one
  event, whose fields \<open>name\<close>, \<open>institution\<close>, \<open>country\<close>, \<open>email\<close> and \<open>comments\<close> are
  the values of the form's fields with the surrounding white space trimmed, institution
  and country as two separate fields.
\<close>

theorem success_emits_trimmed_input:
  assumes "\<not> FormGroup_invalid (arf this)"
      and "captchaSiteKey this = []
           \<or> (\<exists>t. InstructorRequestFormComponent.captchaResponse this = Some t \<and> t \<noteq> [])"
  shows "\<exists>this' sub. onSubmit this = (this', Some sub)
           \<and> (accountService (requestData sub) = Success \<longrightarrow>
                snd (submit accountService this) =
                  [CreateAccountRequest (requestData sub),
                   Emit \<lparr>InstructorRequestFormModel.name =
                           trim (val (arf_controls.name (controls (arf this)))),
                         InstructorRequestFormModel.institution =
                           trim (val (arf_controls.institution (controls (arf this)))),
                         InstructorRequestFormModel.country =
                           trim (val (arf_controls.country (controls (arf this)))),
                         InstructorRequestFormModel.email =
                           trim (val (arf_controls.email (controls (arf this)))),
                         InstructorRequestFormModel.comments =
                           trim (val (arf_controls.comments (controls (arf this))))\<rparr>])"
proof -
  from assms obtain this' sub where s: "onSubmit this = (this', Some sub)"
    using valid_submission_is_sent by blast
  have "snd (submit accountService this) =
          [CreateAccountRequest (requestData sub), Emit (captured sub)]"
    if "accountService (requestData sub) = Success"
    using s that by (simp add: submit_def next_cb_def)
  with s onSubmit_captured [OF s] show ?thesis by auto
qed

theorem success_emits_trimmed_input_witness:
  "\<not> FormGroup_invalid (arf (sample_component ''site-key'' (Some ''token'') ''  hi ''))
   \<and> (\<exists>this' sub.
         onSubmit (sample_component ''site-key'' (Some ''token'') ''  hi '') = (this', Some sub)
         \<and> snd (submit (\<lambda>_. Success) (sample_component ''site-key'' (Some ''token'') ''  hi ''))
             = [CreateAccountRequest (requestData sub),
                Emit \<lparr>InstructorRequestFormModel.name = ''Ada Lovelace'',
                      InstructorRequestFormModel.institution = ''Analytical Society'',
                      InstructorRequestFormModel.country = ''UK'',
                      InstructorRequestFormModel.email = ''ada@example.org'',
                      InstructorRequestFormModel.comments = ''hi''\<rparr>])"
proof -
  let ?S = "sample_component ''site-key'' (Some ''token'') ''  hi ''"
  have v: "\<not> FormGroup_invalid (arf ?S)" by (rule sample_component_valid)
  have c: "captchaSiteKey ?S = []
      \<or> (\<exists>t. InstructorRequestFormComponent.captchaResponse ?S = Some t \<and> t \<noteq> [])"
    by (simp add: sample_component_fields)
  from success_emits_trimmed_input [OF v c, of "\<lambda>_. Success"] v
  show ?thesis by (auto simp add: sample_component_fields sample_trimmed trim_examples)
qed

text \<open>
  C4. For every valid submission whose backend call fails with an error response,
  \<open>serverErrorMessage\<close> becomes exactly the message of the error response, and no
  \<open>requestSubmissionEvent\<close> is emitted: the request is the only effect.
\<close>

theorem failure_shows_server_message:
  assumes "\<not> FormGroup_invalid (arf this)"
      and "captchaSiteKey this = []
           \<or> (\<exists>t. InstructorRequestFormComponent.captchaResponse this = Some t \<and> t \<noteq> [])"
  shows "\<exists>this' sub. onSubmit this = (this', Some sub)
           \<and> (\<forall>resp. accountService (requestData sub) = Failure resp \<longrightarrow>
                serverErrorMessage (fst (submit accountService this)) = message (error resp)
                \<and> snd (submit accountService this) = [CreateAccountRequest (requestData sub)])"
proof -
  from assms obtain this' sub where s: "onSubmit this = (this', Some sub)"
    using valid_submission_is_sent by blast
  have "serverErrorMessage (fst (submit accountService this)) = message (error resp)
        \<and> snd (submit accountService this) = [CreateAccountRequest (requestData sub)]"
    if "accountService (requestData sub) = Failure resp" for resp
    using s that by (simp add: submit_def error_cb_def finalize_cb_def)
  with s show ?thesis by blast
qed

theorem failure_shows_server_message_witness:
  "\<not> FormGroup_invalid (arf (sample_component [] None []))
   \<and> captchaSiteKey (sample_component [] None []) = []
   \<and> (\<exists>this' sub.
         onSubmit (sample_component [] None []) = (this', Some sub)
         \<and> serverErrorMessage
             (fst (submit (\<lambda>_. Failure \<lparr>error = \<lparr>message = ''An account request already exists.''\<rparr>\<rparr>)
                (sample_component [] None [])))
             = ''An account request already exists.''
         \<and> snd (submit (\<lambda>_. Failure \<lparr>error = \<lparr>message = ''An account request already exists.''\<rparr>\<rparr>)
                (sample_component [] None []))
             = [CreateAccountRequest (requestData sub)])"
proof -
  let ?S = "sample_component [] None []"
  have v: "\<not> FormGroup_invalid (arf ?S)" by (rule sample_component_valid)
  have c: "captchaSiteKey ?S = []
      \<or> (\<exists>t. InstructorRequestFormComponent.captchaResponse ?S = Some t \<and> t \<noteq> [])"
    by (simp add: sample_component_fields)
  from failure_shows_server_message
    [OF v c, of "\<lambda>_. Failure \<lparr>error = \<lparr>message = ''An account request already exists.''\<rparr>\<rparr>"] v
  show ?thesis by (auto simp add: sample_component_fields)
qed

section \<open>The start of every submission\<close>

text \<open>
  C9. Every call of \<open>onSubmit\<close>, whether the submission goes on or is blocked, sets
  \<open>hasSubmitAttempt\<close> and empties \<open>serverErrorMessage\<close>; so an error shown before is
  cleared by a new attempt, and after the whole submission the message is empty unless
  the new request itself fails.
\<close>

theorem onSubmit_marks_attempt_and_clears_error:
  "hasSubmitAttempt (fst (onSubmit this))
   \<and> serverErrorMessage (fst (onSubmit this)) = []
   \<and> hasSubmitAttempt (fst (submit accountService this))
   \<and> serverErrorMessage (fst (submit accountService this)) =
       (case snd (onSubmit this) of
          None \<Rightarrow> []
        | Some sub \<Rightarrow>
            (case accountService (requestData sub) of
               Success \<Rightarrow> []
             | Failure resp \<Rightarrow> message (error resp)))"
proof -
  obtain this' r where s: "onSubmit this = (this', r)" by (cases "onSubmit this")
  from onSubmit_component [of this] s
  have a: "hasSubmitAttempt this'" "serverErrorMessage this' = []" by simp_all
  show ?thesis
  proof (cases r)
    case None
    with s a show ?thesis by (simp add: submit_def)
  next
    case (Some sub)
    with s a show ?thesis
      by (cases "accountService (requestData sub)")
         (simp_all add: submit_def error_cb_def finalize_cb_def)
  qed
qed

theorem onSubmit_marks_attempt_and_clears_error_witness:
  "serverErrorMessage ((new_component ''site-key'')\<lparr>serverErrorMessage := ''old error''\<rparr>)
     = ''old error''
   \<and> hasSubmitAttempt
       (fst (onSubmit ((new_component ''site-key'')\<lparr>serverErrorMessage := ''old error''\<rparr>)))
   \<and> serverErrorMessage
       (fst (onSubmit ((new_component ''site-key'')\<lparr>serverErrorMessage := ''old error''\<rparr>))) = []
   \<and> hasSubmitAttempt
       (fst (onSubmit ((sample_component [] None [])\<lparr>serverErrorMessage := ''old error''\<rparr>)))
   \<and> serverErrorMessage
       (fst (onSubmit ((sample_component [] None [])\<lparr>serverErrorMessage := ''old error''\<rparr>))) = []"
  using
    onSubmit_marks_attempt_and_clears_error
      [of "(new_component ''site-key'')\<lparr>serverErrorMessage := ''old error''\<rparr>" "\<lambda>_. Success"]
    onSubmit_marks_attempt_and_clears_error
      [of "(sample_component [] None [])\<lparr>serverErrorMessage := ''old error''\<rparr>" "\<lambda>_. Success"]
  by simp

section \<open>The submit button\<close>

text \<open>
  C6, as stated, fails. The claim is that in every state in which validation fails or the
  captcha token is missing, \<open>canSubmit\<close> is false. In the new component the required
  fields are empty, so the form is invalid, and no token has been received; yet
  \<open>canSubmit\<close> holds there, and still holds after the blocked \<open>onSubmit\<close>. And where no
  site key is configured, a valid form without a token is not blocked at all.
\<close>

theorem canSubmit_ignores_validation_counterexample:
  "FormGroup_invalid (arf (new_component ''site-key''))
   \<and> InstructorRequestFormComponent.captchaResponse (new_component ''site-key'') = None
   \<and> canSubmit (new_component ''site-key'')
   \<and> snd (onSubmit (new_component ''site-key'')) = None
   \<and> canSubmit (fst (onSubmit (new_component ''site-key'')))
   \<and> InstructorRequestFormComponent.captchaResponse (sample_component [] None []) = None
   \<and> canSubmit (sample_component [] None [])
   \<and> snd (onSubmit (sample_component [] None [])) \<noteq> None"
proof -
  have "FormGroup_invalid (arf (new_component ''site-key''))
      \<and> InstructorRequestFormComponent.captchaResponse (new_component ''site-key'') = None
      \<and> canSubmit (new_component ''site-key'')
      \<and> snd (onSubmit (new_component ''site-key'')) = None
      \<and> canSubmit (fst (onSubmit (new_component ''site-key'')))"
    by (simp add: new_component_invalid onSubmit_blocked canSubmit_def)
       (simp add: new_component_def)
  moreover have "InstructorRequestFormComponent.captchaResponse (sample_component [] None []) = None
      \<and> canSubmit (sample_component [] None [])"
    by (simp add: sample_component_fields canSubmit_def)
  moreover have "snd (onSubmit (sample_component [] None [])) \<noteq> None"
    using onSubmit_Some_iff [of "sample_component [] None []"]
    by (simp add: sample_component_valid sample_component_fields)
  ultimately show ?thesis by blast
qed

text \<open>
  C6, amended. In every state in which validation fails, or a captcha site key is
  configured and the captcha token is missing, the submission is blocked by the early
  return of \<open>onSubmit\<close>, with no request, no error message and the loading flag down, and
  not by the disabled state: \<open>canSubmit\<close> is the negation of \<open>isLoading\<close>, whatever the
  validation and the captcha say, and it holds after the blocked attempt.
\<close>

theorem blocked_submission_is_silent:
  assumes "FormGroup_invalid (arf this)
           \<or> (captchaSiteKey this \<noteq> []
               \<and> InstructorRequestFormComponent.captchaResponse this = None)"
  shows "onSubmit this =
           (this\<lparr>hasSubmitAttempt := True, isLoading := False, serverErrorMessage := []\<rparr>, None)
         \<and> canSubmit this = (\<not> isLoading this)
         \<and> canSubmit (fst (onSubmit this))"
proof -
  from assms have "FormGroup_invalid (arf this)
      \<or> (truthy (captchaSiteKey this)
           \<and> \<not> truthy_opt (InstructorRequestFormComponent.captchaResponse this))"
    by (auto simp add: truthy_def)
  then have "onSubmit this =
      (this\<lparr>hasSubmitAttempt := True, isLoading := False, serverErrorMessage := []\<rparr>, None)"
    by (rule onSubmit_blocked)
  then show ?thesis by (simp add: canSubmit_def)
qed

theorem blocked_submission_is_silent_witness:
  "FormGroup_invalid (arf (new_component ''site-key''))
   \<and> snd (onSubmit (new_component ''site-key'')) = None
   \<and> serverErrorMessage (fst (onSubmit (new_component ''site-key''))) = []
   \<and> canSubmit (new_component ''site-key'')
   \<and> canSubmit (fst (onSubmit (new_component ''site-key'')))"
proof -
  have a: "FormGroup_invalid (arf (new_component ''site-key''))"
    by (rule new_component_invalid)
  have b: "\<not> isLoading (new_component ''site-key'')" by (simp add: new_component_def)
  from blocked_submission_is_silent [OF disjI1 [OF a]] a b show ?thesis
    by (simp add: canSubmit_def)
qed

section \<open>Cancelling\<close>

text \<open>
  C5. \<open>onCancel\<close> navigates to the home route \<open>/web/front/home\<close> at once, without a
  prompt, when no control of the form is dirty; when a control is dirty it shows the
  prompt, and navigates to the same route if the user confirms and nowhere otherwise.
\<close>

theorem onCancel_navigates_home:
  "((\<forall>c\<in>set (Object_values (controls (arf this))). \<not> dirty c) \<longrightarrow>
      onCancel answer this = [Navigate [''/web/front/home'']])
   \<and> ((\<exists>c\<in>set (Object_values (controls (arf this))). dirty c) \<longrightarrow>
      (answer \<longrightarrow> onCancel answer this =
         [Confirm ''Are you sure you want to cancel? You will lose all unsaved changes.'',
          Navigate [''/web/front/home'']])
      \<and> (\<not> answer \<longrightarrow> onCancel answer this =
         [Confirm ''Are you sure you want to cancel? You will lose all unsaved changes.'']))"
  by (simp add: onCancel_def Let_def list_ex_iff)

theorem onCancel_navigates_home_witness:
  "onCancel False (new_component ''site-key'') = [Navigate [''/web/front/home'']]
   \<and> onCancel True (new_component ''site-key'') = [Navigate [''/web/front/home'']]
   \<and> (\<exists>c\<in>set (Object_values (controls (arf (sample_component ''site-key'' None [])))). dirty c)
   \<and> onCancel True (sample_component ''site-key'' None []) =
        [Confirm ''Are you sure you want to cancel? You will lose all unsaved changes.'',
         Navigate [''/web/front/home'']]
   \<and> onCancel False (sample_component ''site-key'' None []) =
        [Confirm ''Are you sure you want to cancel? You will lose all unsaved changes.'']"
proof -
  have clean: "\<forall>c\<in>set (Object_values (controls (arf (new_component ''site-key'')))). \<not> dirty c"
    by (simp add: new_component_def new_control_def Object_values_def)
  have touched:
    "\<exists>c\<in>set (Object_values (controls (arf (sample_component ''site-key'' None [])))). dirty c"
    by (simp add: sample_component_fields sample_controls_def Object_values_def)
  from clean touched
    onCancel_navigates_home [of "new_component ''site-key''" False]
    onCancel_navigates_home [of "new_component ''site-key''" True]
    onCancel_navigates_home [of "sample_component ''site-key'' None []" True]
    onCancel_navigates_home [of "sample_component ''site-key'' None []" False]
  show ?thesis by simp
qed

section \<open>One request at a time\<close>

text \<open>
  C8. At most one request is in flight at a time. The loading flag is up in the state in
  which \<open>onSubmit\<close> leaves the component when it sends the request; \<open>canSubmit\<close> is
  false whenever the flag is up; the delivery of the outcome lowers the flag, on success
  and on failure; and in every state the page reaches from its start, at most one
  request is pending, and one is pending exactly while the flag is up.
\<close>

theorem one_request_in_flight:
  "(\<forall>this' sub. onSubmit this = (this', Some sub) \<longrightarrow> isLoading this')
   \<and> (isLoading this \<longrightarrow> \<not> canSubmit this)
   \<and> \<not> isLoading (fst (settle Success arrived waiting))
   \<and> \<not> isLoading (fst (settle (Failure resp) arrived waiting))
   \<and> length (pending (run (new_page siteKey) events)) \<le> 1
   \<and> (isLoading (component (run (new_page siteKey) events))
        \<longleftrightarrow> pending (run (new_page siteKey) events) \<noteq> [])"
proof -
  have a: "\<forall>this' sub. onSubmit this = (this', Some sub) \<longrightarrow> isLoading this'"
    using onSubmit_component [of this] by auto
  have b: "isLoading this \<longrightarrow> \<not> canSubmit this"
    by (simp add: canSubmit_def)
  have c: "length (pending (run (new_page siteKey) events)) \<le> 1
      \<and> (isLoading (component (run (new_page siteKey) events))
           \<longleftrightarrow> pending (run (new_page siteKey) events) \<noteq> [])"
    by (rule run_keeps_one_pending) (simp_all add: new_page_def new_component_def)
  have d: "\<not> isLoading (fst (settle Success arrived waiting))
      \<and> \<not> isLoading (fst (settle (Failure resp) arrived waiting))"
    using settle_isLoading by blast
  from a b c d show ?thesis by blast
qed

theorem one_request_in_flight_witness:
  "(\<exists>this' sub. onSubmit (sample_component ''site-key'' (Some ''token'') ''hi'') = (this', Some sub)
       \<and> isLoading this' \<and> \<not> canSubmit this'
       \<and> \<not> isLoading (fst (settle Success sub this'))
       \<and> \<not> isLoading (fst (settle (Failure \<lparr>error = \<lparr>message = ''Invalid email.''\<rparr>\<rparr>) sub this')))
   \<and> length (pending (run (new_page ''site-key'')
        [Form_edited \<lparr>controls = sample_controls ''hi''\<rparr>, Captcha_solved ''token'',
         Press_submit, Press_submit])) = 1
   \<and> isLoading (component (run (new_page ''site-key'')
        [Form_edited \<lparr>controls = sample_controls ''hi''\<rparr>, Captcha_solved ''token'',
         Press_submit, Press_submit]))"
proof -
  let ?c = "sample_component ''site-key'' (Some ''token'') ''hi''"
  let ?events = "[Form_edited \<lparr>controls = sample_controls ''hi''\<rparr>, Captcha_solved ''token'',
         Press_submit, Press_submit]"
  let ?resp = "\<lparr>error = \<lparr>message = ''Invalid email.''\<rparr>\<rparr>"
  obtain this' sub where s: "onSubmit ?c = (this', Some sub)"
    using valid_submission_is_sent [of ?c]
    by (auto simp add: sample_component_valid sample_component_fields)
  note sent = one_request_in_flight
    [where this = ?c and arrived = sub and waiting = this' and resp = ?resp
       and siteKey = "''site-key''" and events = ?events]
  note loading = one_request_in_flight
    [where this = this' and arrived = sub and waiting = this' and resp = ?resp
       and siteKey = "''site-key''" and events = "[]"]
  from s sent have up: "isLoading this'" by blast
  with loading have "\<not> canSubmit this'" by blast
  with s up sent have first: "\<exists>this' sub. onSubmit ?c = (this', Some sub)
       \<and> isLoading this' \<and> \<not> canSubmit this'
       \<and> \<not> isLoading (fst (settle Success sub this'))
       \<and> \<not> isLoading (fst (settle (Failure ?resp) sub this'))"
    by blast
  from sample_page_sends have ne: "pending (run (new_page ''site-key'') ?events) \<noteq> []"
    by auto
  with sent have second: "length (pending (run (new_page ''site-key'') ?events)) = 1
      \<and> isLoading (component (run (new_page ''site-key'') ?events))"
    by (cases "pending (run (new_page ''site-key'') ?events)") auto
  from first second show ?thesis by blast
qed

end
